theory Spec2Isabelle
  imports Complex_Main
begin

section \<open>Values exchanged with the backend\<close>

text \<open>
  \<^verbatim>\<open>fetch_product_data\<close> returns whatever \<^verbatim>\<open>response.json()\<close> decodes, so a
  product record is an arbitrary decoded JSON value: Python's \<^verbatim>\<open>None\<close>, \<^verbatim>\<open>bool\<close>,
  \<^verbatim>\<open>int\<close>, \<^verbatim>\<open>float\<close>, \<^verbatim>\<open>str\<close>, \<^verbatim>\<open>list\<close> and \<^verbatim>\<open>dict\<close>.
  A \<^verbatim>\<open>str\<close> is kept as the bytes of its UTF-8 encoding. A \<^verbatim>\<open>dict\<close> is the list
  of its items; a key is looked up from the front, so the first pair with a key is its
  binding. A \<^verbatim>\<open>float\<close> is a real number (NaN and the infinities, which only
  non-standard JSON can carry, are not represented).
\<close>

datatype json =
    JNull
  | JBool bool
  | JInt int
  | JFloat real
  | JStr string
  | JArr "json list"
  | JObj "(string \<times> json) list"

text \<open>
  The exceptions the analysis can raise. \<open>ValidationError\<close> is the error class the
  specification names for a missing or malformed field; no statement of the source
  raises it, and it is here only so that this can be said.
\<close>

datatype py_error = KeyError | TypeError | AttributeError | ValueError | ValidationError

text \<open>Truth value of an object, as \<^verbatim>\<open>not x\<close> and \<^verbatim>\<open>if x\<close> test it.\<close>

fun truthy :: "json \<Rightarrow> bool" where
  "truthy JNull = False"
| "truthy (JBool b) = b"
| "truthy (JInt n) = (n \<noteq> 0)"
| "truthy (JFloat r) = (r \<noteq> 0)"
| "truthy (JStr s) = (s \<noteq> [])"
| "truthy (JArr xs) = (xs \<noteq> [])"
| "truthy (JObj kvs) = (kvs \<noteq> [])"

text \<open>
  \<^verbatim>\<open>obj[key]\<close> with a string key: a \<^verbatim>\<open>dict\<close> without the key raises
  \<^verbatim>\<open>KeyError\<close>; every other decoded value raises \<^verbatim>\<open>TypeError\<close> (a list or a
  string wants an integer index, the rest cannot be subscripted).
\<close>

fun getitem :: "json \<Rightarrow> string \<Rightarrow> py_error + json" where
  "getitem (JObj kvs) k = (case map_of kvs k of None \<Rightarrow> Inl KeyError | Some v \<Rightarrow> Inr v)"
| "getitem _ k = Inl TypeError"

text \<open>
  Iterating over a value: a list gives its elements, a \<^verbatim>\<open>dict\<close> its keys, a string
  its characters (each a string of length one); numbers, booleans and \<^verbatim>\<open>None\<close>
  are not iterable.
\<close>

fun iter :: "json \<Rightarrow> py_error + json list" where
  "iter (JArr xs) = Inr xs"
| "iter (JObj kvs) = Inr (map (\<lambda>kv. JStr (fst kv)) kvs)"
| "iter (JStr s) = Inr (map (\<lambda>c. JStr [c]) s)"
| "iter _ = Inl TypeError"

section \<open>Dates\<close>

text \<open>
  A naive \<^verbatim>\<open>datetime\<close>, with the fields Python gives it, and the proleptic
  Gregorian day count that \<^verbatim>\<open>toordinal\<close> computes (day 1 is 0001-01-01).
\<close>

record datetime =
  year :: int
  month :: int
  day :: int
  hour :: int
  minute :: int
  second :: int
  microsecond :: int

definition is_leap :: "int \<Rightarrow> bool" where
  "is_leap y = (y mod 4 = 0 \<and> (y mod 100 \<noteq> 0 \<or> y mod 400 = 0))"

definition days_before_year :: "int \<Rightarrow> int" where
  "days_before_year y = (y - 1) * 365 + (y - 1) div 4 - (y - 1) div 100 + (y - 1) div 400"

definition days_in_month :: "int \<Rightarrow> int \<Rightarrow> int" where
  "days_in_month y m =
     (if m = 2 then (if is_leap y then 29 else 28)
      else if m = 4 \<or> m = 6 \<or> m = 9 \<or> m = 11 then 30
      else 31)"

text \<open>
  The days of the year before a month. Python asserts that the month is between 1 and
  12, which holds for every \<^verbatim>\<open>datetime\<close> it builds; outside that range the
  table gives 0 here.
\<close>

definition days_before_month :: "int \<Rightarrow> int \<Rightarrow> int" where
  "days_before_month y m =
     (if 1 \<le> m \<and> m \<le> 12
      then [0, 31, 59, 90, 120, 151, 181, 212, 243, 273, 304, 334] ! nat (m - 1)
      else 0)
       + (if m > 2 \<and> is_leap y then 1 else 0)"

definition ymd2ord :: "int \<Rightarrow> int \<Rightarrow> int \<Rightarrow> int" where
  "ymd2ord y m d = days_before_year y + days_before_month y m + d"

definition toordinal :: "datetime \<Rightarrow> int" where
  "toordinal dt = ymd2ord (year dt) (month dt) (day dt)"

text \<open>
  A value \<^verbatim>\<open>datetime.now()\<close> can return: year 1 to 9999, a day of the month that
  exists, and a time of day.
\<close>

definition valid_datetime :: "datetime \<Rightarrow> bool" where
  "valid_datetime dt =
     (1 \<le> year dt \<and> year dt \<le> 9999 \<and> 1 \<le> month dt \<and> month dt \<le> 12
      \<and> 1 \<le> day dt \<and> day dt \<le> days_in_month (year dt) (month dt)
      \<and> 0 \<le> hour dt \<and> hour dt < 24 \<and> 0 \<le> minute dt \<and> minute dt < 60
      \<and> 0 \<le> second dt \<and> second dt < 60
      \<and> 0 \<le> microsecond dt \<and> microsecond dt < 1000000)"

text \<open>
  \<^verbatim>\<open>(a - b).days\<close>: the difference of two datetimes is a \<^verbatim>\<open>timedelta\<close> built from
  the differences of the day counts, of the seconds of the day and of the microseconds,
  and normalised so that seconds and microseconds are not negative; its \<^verbatim>\<open>days\<close>
  is therefore the floor of the whole difference in days.
\<close>

definition sub_days :: "datetime \<Rightarrow> datetime \<Rightarrow> int" where
  "sub_days a b =
     (let days = toordinal a - toordinal b;
          secs = (second a + minute a * 60 + hour a * 3600)
                   - (second b + minute b * 60 + hour b * 3600);
          us = microsecond a - microsecond b
      in (days * 86400000000 + secs * 1000000 + us) div 86400000000)"

text \<open>Comparison of naive datetimes: lexicographic on the fields, as Python compares them.\<close>

definition dt_key :: "datetime \<Rightarrow> int list" where
  "dt_key dt = [year dt, month dt, day dt, hour dt, minute dt, second dt, microsecond dt]"

fun list_less :: "int list \<Rightarrow> int list \<Rightarrow> bool" where
  "list_less (x # xs) (y # ys) = (x < y \<or> (x = y \<and> list_less xs ys))"
| "list_less [] (y # ys) = True"
| "list_less _ [] = False"

definition dt_less :: "datetime \<Rightarrow> datetime \<Rightarrow> bool" where
  "dt_less a b = list_less (dt_key a) (dt_key b)"

text \<open>
  \<^verbatim>\<open>max\<close> over a non-empty sequence: the running maximum is replaced only by a
  strictly greater element.
\<close>

fun max_datetime :: "datetime \<Rightarrow> datetime list \<Rightarrow> datetime" where
  "max_datetime m [] = m"
| "max_datetime m (x # xs) = max_datetime (if dt_less m x then x else m) xs"

section \<open>Parsing a date\<close>

text \<open>
  \<^verbatim>\<open>datetime.strptime(s, "%Y-%m-%d")\<close>. The library turns the format into the
  regular expression
  \<^verbatim>\<open>(\d\d\d\d)-(1[0-2]|0[1-9]|[1-9])-(3[01]|[12]\d|0[1-9]|[1-9]| [1-9])\<close>,
  matches it at the start of the string, and raises \<^verbatim>\<open>ValueError\<close> when it does
  not match, when text remains after the match, or when the day does not exist in the
  month (or the year is 0). An argument that is not a string raises \<^verbatim>\<open>TypeError\<close>.
  A digit is one of the ASCII digits here; the library also reads the decimal digits of
  other scripts, and dates written with them are outside this model.
\<close>

definition is_digit :: "char \<Rightarrow> bool" where
  "is_digit c = (48 \<le> (of_char c :: nat) \<and> (of_char c :: nat) \<le> 57)"

definition digit_val :: "char \<Rightarrow> int" where
  "digit_val c = int (of_char c) - 48"

fun match_Y :: "string \<Rightarrow> (int \<times> string) list" where
  "match_Y (a # b # c # d # rest) =
     (if is_digit a \<and> is_digit b \<and> is_digit c \<and> is_digit d
      then [(digit_val a * 1000 + digit_val b * 100 + digit_val c * 10 + digit_val d, rest)]
      else [])"
| "match_Y _ = []"

fun match_dash :: "string \<Rightarrow> string list" where
  "match_dash (c # rest) = (if c = CHR ''-'' then [rest] else [])"
| "match_dash [] = []"

text \<open>The alternatives of a group, in the order the matcher tries them.\<close>

definition match_m :: "string \<Rightarrow> (int \<times> string) list" where
  "match_m s =
     (case s of
        a # b # rest \<Rightarrow>
          (if a = CHR ''1'' \<and> (b = CHR ''0'' \<or> b = CHR ''1'' \<or> b = CHR ''2'')
           then [(10 + digit_val b, rest)] else [])
          @ (if a = CHR ''0'' \<and> is_digit b \<and> b \<noteq> CHR ''0''
             then [(digit_val b, rest)] else [])
      | _ \<Rightarrow> [])
     @ (case s of
          a # rest \<Rightarrow> (if is_digit a \<and> a \<noteq> CHR ''0'' then [(digit_val a, rest)] else [])
        | [] \<Rightarrow> [])"

definition match_d :: "string \<Rightarrow> (int \<times> string) list" where
  "match_d s =
     (case s of
        a # b # rest \<Rightarrow>
          (if a = CHR ''3'' \<and> (b = CHR ''0'' \<or> b = CHR ''1'')
           then [(30 + digit_val b, rest)] else [])
          @ (if (a = CHR ''1'' \<or> a = CHR ''2'') \<and> is_digit b
             then [(digit_val a * 10 + digit_val b, rest)] else [])
          @ (if a = CHR ''0'' \<and> is_digit b \<and> b \<noteq> CHR ''0''
             then [(digit_val b, rest)] else [])
      | _ \<Rightarrow> [])
     @ (case s of
          a # rest \<Rightarrow> (if is_digit a \<and> a \<noteq> CHR ''0'' then [(digit_val a, rest)] else [])
        | [] \<Rightarrow> [])
     @ (case s of
          a # b # rest \<Rightarrow>
            (if a = CHR '' '' \<and> is_digit b \<and> b \<noteq> CHR ''0''
             then [(digit_val b, rest)] else [])
        | _ \<Rightarrow> [])"

text \<open>
  All the ways the expression matches a prefix of the string, first choice first: year,
  month, day and the unread rest.
\<close>

definition match_format :: "string \<Rightarrow> (int \<times> int \<times> int \<times> string) list" where
  "match_format s =
     concat (map (\<lambda>(y, r1).
       concat (map (\<lambda>r2.
         concat (map (\<lambda>(m, r3).
           concat (map (\<lambda>r4.
             map (\<lambda>(d, r5). (y, m, d, r5)) (match_d r4))
           (match_dash r3)))
         (match_m r2)))
       (match_dash r1)))
     (match_Y s))"

definition strptime :: "json \<Rightarrow> py_error + datetime" where
  "strptime v =
     (case v of
        JStr s \<Rightarrow>
          (case match_format s of
             [] \<Rightarrow> Inl ValueError
           | (y, m, d, rest) # _ \<Rightarrow>
               if rest \<noteq> [] then Inl ValueError
               else if y < 1 \<or> days_in_month y m < d then Inl ValueError
               else Inr \<lparr>year = y, month = m, day = d, hour = 0, minute = 0,
                         second = 0, microsecond = 0\<rparr>)
      | _ \<Rightarrow> Inl TypeError)"

section \<open>Numbers and their text\<close>

text \<open>
  The days since the last inspection are an \<^verbatim>\<open>int\<close> or \<^verbatim>\<open>float('inf')\<close>, the
  only float the program makes. \<open>py_gt x k\<close> is \<^verbatim>\<open>x > k\<close> for an integer
  \<open>k\<close>; \<open>py_str x\<close> is the text an f-string writes for it.
\<close>

datatype py_number = PyInt int | PyInf

fun py_gt :: "py_number \<Rightarrow> int \<Rightarrow> bool" where
  "py_gt (PyInt n) k = (n > k)"
| "py_gt PyInf k = True"

fun digits :: "nat \<Rightarrow> string" where
  "digits n =
     (if n < 10 then [char_of (48 + n)]
      else digits (n div 10) @ [char_of (48 + n mod 10)])"

declare digits.simps [simp del]

definition str_int :: "int \<Rightarrow> string" where
  "str_int i = (if i < 0 then CHR ''-'' # digits (nat (- i)) else digits (nat i))"

fun py_str :: "py_number \<Rightarrow> string" where
  "py_str (PyInt n) = str_int n"
| "py_str PyInf = ''inf''"

text \<open>
  \<^verbatim>\<open>s.lower()\<close> on the bytes of a string: the ASCII capitals become small
  letters. Python also lowers the letters of other scripts; none of them becomes one of
  the ASCII letters of the three status words, so the membership test of the status
  bucket is the same.
\<close>

definition lower_char :: "char \<Rightarrow> char" where
  "lower_char c =
     (if 65 \<le> (of_char c :: nat) \<and> (of_char c :: nat) \<le> 90
      then char_of ((of_char c :: nat) + 32) else c)"

definition lower :: "json \<Rightarrow> py_error + string" where
  "lower v = (case v of JStr s \<Rightarrow> Inr (map lower_char s) | _ \<Rightarrow> Inl AttributeError)"

section \<open>The world around the analyzer\<close>

text \<open>
  What the program reads and writes besides its arguments: the clock behind
  \<^verbatim>\<open>datetime.now()\<close> (\<open>clock w n\<close> is the \<open>n\<close>-th reading, \<open>reads w\<close> the
  number of readings taken so far), the lines printed, and the backend behind
  \<^verbatim>\<open>requests.get\<close>, which answers a URL with a decoded body or with a
  \<^verbatim>\<open>RequestException\<close> carrying its message: no connection, an error status
  from \<^verbatim>\<open>raise_for_status\<close>, or a body that is not JSON (which
  \<^verbatim>\<open>response.json()\<close> reports as a \<^verbatim>\<open>RequestException\<close> since version 2.27
  of the library).
\<close>

datatype response = RequestException string | Body json

record world =
  clock :: "nat \<Rightarrow> datetime"
  reads :: nat
  stdout :: "string list"
  http :: "string \<Rightarrow> response"

definition datetime_now :: "world \<Rightarrow> datetime \<times> world" where
  "datetime_now w = (clock w (reads w), w\<lparr>reads := Suc (reads w)\<rparr>)"

record RailwayAnalyzer =
  api_base_url :: string

definition rstrip_slash :: "string \<Rightarrow> string" where
  "rstrip_slash s = rev (dropWhile (\<lambda>c. c = CHR ''/'') (rev s))"

definition init :: "string \<Rightarrow> RailwayAnalyzer" where
  "init url = \<lparr>api_base_url = rstrip_slash url\<rparr>"

text \<open>\<^verbatim>\<open>fetch_product_data\<close>: the decoded body, or \<^verbatim>\<open>None\<close> after printing the error.\<close>

definition fetch_product_data :: "RailwayAnalyzer \<Rightarrow> string \<Rightarrow> world \<Rightarrow> json \<times> world" where
  "fetch_product_data self product_id w =
     (case http w (api_base_url self @ ''/api/products/'' @ product_id) of
        Body j \<Rightarrow> (j, w)
      | RequestException e \<Rightarrow>
          (JNull,
           w\<lparr>stdout := stdout w
                @ [''Error fetching data for Product ID '' @ product_id @ '': '' @ e]\<rparr>))"

section \<open>Age and inspection recency\<close>

definition calculate_age_months :: "json \<Rightarrow> world \<Rightarrow> (py_error + int) \<times> world" where
  "calculate_age_months supply_date w =
     (case strptime supply_date of
        Inl e \<Rightarrow> (Inl e, w)
      | Inr supply \<Rightarrow>
          (let (now, w') = datetime_now w
           in (Inr (sub_days now supply div 30), w')))"

text \<open>
  The generator inside \<^verbatim>\<open>max\<close> parses the dates one after the other, so the first
  one that does not parse raises.
\<close>

fun parse_dates :: "json list \<Rightarrow> py_error + datetime list" where
  "parse_dates [] = Inr []"
| "parse_dates (x # xs) =
     (case strptime x of
        Inl e \<Rightarrow> Inl e
      | Inr d \<Rightarrow> (case parse_dates xs of Inl e \<Rightarrow> Inl e | Inr ds \<Rightarrow> Inr (d # ds)))"

definition get_last_inspection_days :: "json \<Rightarrow> world \<Rightarrow> (py_error + py_number) \<times> world" where
  "get_last_inspection_days inspection_dates w =
     (if \<not> truthy inspection_dates then (Inr PyInf, w)
      else
        (case iter inspection_dates of
           Inl e \<Rightarrow> (Inl e, w)
         | Inr items \<Rightarrow>
             (case parse_dates items of
                Inl e \<Rightarrow> (Inl e, w)
              | Inr [] \<Rightarrow> (Inl ValueError, w)
              | Inr (d # ds) \<Rightarrow>
                  (let latest = max_datetime d ds;
                       (now, w') = datetime_now w
                   in (Inr (PyInt (sub_days now latest)), w')))))"

section \<open>The condition scorer\<close>

text \<open>
  The literals of the source that are not ASCII, as the bytes the source file holds, in
  the order of lines 72, 75, 78, 94 to 96, 99 to 101, 104, 105, 109 and 113.
\<close>

definition icon_red :: string where
  "icon_red = [CHR 0xEF, CHR 0xA3, CHR 0xBF, CHR 0xC3, CHR 0xBC, CHR 0xC3, CHR 0xAE, CHR 0xC2, CHR 0xA5]"

definition icon_yellow :: string where
  "icon_yellow = [CHR 0xEF, CHR 0xA3, CHR 0xBF, CHR 0xC3, CHR 0xBC, CHR 0xC3, CHR 0xBC, CHR 0xC2, CHR 0xB0]"

definition icon_green :: string where
  "icon_green = [CHR 0xEF, CHR 0xA3, CHR 0xBF, CHR 0xC3, CHR 0xBC, CHR 0xC3, CHR 0xBC, CHR 0xC2, CHR 0xA2]"

definition icon_siren :: string where
  "icon_siren = [CHR 0xEF, CHR 0xA3, CHR 0xBF, CHR 0xC3, CHR 0xBC, CHR 0xC3, CHR 0xB6, CHR 0xC2, CHR 0xAE]"

definition icon_wrench :: string where
  "icon_wrench = [CHR 0xEF, CHR 0xA3, CHR 0xBF, CHR 0xC3, CHR 0xBC, CHR 0xC3, CHR 0xAE, CHR 0xC3, CHR 0x9F]"

definition icon_clipboard :: string where
  "icon_clipboard = [CHR 0xEF, CHR 0xA3, CHR 0xBF, CHR 0xC3, CHR 0xBC, CHR 0xC3, CHR 0xAC, CHR 0xC3, CHR 0xA3]"

definition icon_warning :: string where
  "icon_warning = [CHR 0xE2, CHR 0x80, CHR 0x9A, CHR 0xC3, CHR 0xB6, CHR 0xE2, CHR 0x80, CHR 0xA0,
                   CHR 0xC3, CHR 0x94, CHR 0xE2, CHR 0x88, CHR 0x8F, CHR 0xC3, CHR 0xA8]"

definition icon_search :: string where
  "icon_search = [CHR 0xEF, CHR 0xA3, CHR 0xBF, CHR 0xC3, CHR 0xBC, CHR 0xC3, CHR 0xAE, CHR 0xC3, CHR 0xA7]"

definition icon_chart :: string where
  "icon_chart = [CHR 0xEF, CHR 0xA3, CHR 0xBF, CHR 0xC3, CHR 0xBC, CHR 0xC3, CHR 0xAC, CHR 0xC3, CHR 0xA4]"

definition icon_check :: string where
  "icon_check = [CHR 0xE2, CHR 0x80, CHR 0x9A, CHR 0xC3, CHR 0xBA, CHR 0xC3, CHR 0x96]"

definition icon_calendar :: string where
  "icon_calendar = [CHR 0xEF, CHR 0xA3, CHR 0xBF, CHR 0xC3, CHR 0xBC, CHR 0xC3, CHR 0xAC, CHR 0xC3, CHR 0x96]"

definition icon_inspect :: string where
  "icon_inspect = [CHR 0xEF, CHR 0xA3, CHR 0xBF, CHR 0xC3, CHR 0xBC, CHR 0xC3, CHR 0xAE, CHR 0xC3, CHR 0xA9]"

definition icon_trend :: string where
  "icon_trend = [CHR 0xEF, CHR 0xA3, CHR 0xBF, CHR 0xC3, CHR 0xBC, CHR 0xC3, CHR 0xAC, CHR 0xC3, CHR 0xA0]"

text \<open>The dictionary \<^verbatim>\<open>analyze_condition\<close> returns, one field per key.\<close>

record analysis =
  condition :: string
  risk_score :: int
  color :: string
  risk_factors :: "string list"
  age_months :: int
  days_since_inspection :: py_number

text \<open>
  \<^verbatim>\<open>analyze_condition\<close> is written here in the three parts its comments mark.
  First lines 41 to 67: the three rule buckets, which add to the score and append to the
  factors in turn; reading the status can raise. The local variables
  \<^verbatim>\<open>age_months\<close>, \<^verbatim>\<open>days_since_inspection\<close>, \<^verbatim>\<open>risk_score\<close> and
  \<^verbatim>\<open>risk_factors\<close> are \<open>months\<close>, \<open>days\<close>, \<open>score\<close> and \<open>factors\<close>
  here, since the fields of the result carry the long names.
\<close>

definition risk_assessment :: "int \<Rightarrow> py_number \<Rightarrow> json \<Rightarrow> py_error + (int \<times> string list)" where
  "risk_assessment months days product_data =
     (let score = 0;
          factors = [];
          (score, factors) =
            (if months > 48
             then (score + 40, factors @ [''Component exceeding recommended service life''])
             else if months > 36
             then (score + 25, factors @ [''Component approaching end of service life''])
             else if months > 24
             then (score + 10, factors @ [''Component in mid-service period''])
             else (score, factors));
          (score, factors) =
            (if py_gt days 180
             then (score + 35, factors @ [''Overdue for inspection (>6 months)''])
             else if py_gt days 90
             then (score + 20, factors @ [''Due for inspection soon''])
             else (score, factors))
      in (case getitem product_data ''status'' of
            Inl e \<Rightarrow> Inl e
          | Inr st \<Rightarrow>
              (case lower st of
                 Inl e \<Rightarrow> Inl e
               | Inr s \<Rightarrow>
                   Inr (if s \<in> set [''faulty'', ''damaged'', ''worn'']
                        then (score + 50, factors @ [''Component status indicates issues''])
                        else (score, factors)))))"

text \<open>Lines 69 to 78: the condition level and its colour, from the score as accumulated.\<close>

definition determine_condition :: "int \<Rightarrow> string \<times> string" where
  "determine_condition score =
     (if score \<ge> 70 then (''CRITICAL'', icon_red)
      else if score \<ge> 40 then (''WARNING'', icon_yellow)
      else (''GOOD'', icon_green))"

text \<open>
  The whole function: lines 38 and 39 compute the age and the days since the last
  inspection (each reads the clock once, unless it raises or returns before), then the
  two parts above, then the returned dictionary with the score cut to 100.
\<close>

definition analyze_condition :: "json \<Rightarrow> world \<Rightarrow> (py_error + analysis) \<times> world" where
  "analyze_condition product_data w =
     (case getitem product_data ''dateOfSupply'' of
        Inl e \<Rightarrow> (Inl e, w)
      | Inr supply_date \<Rightarrow>
          (case calculate_age_months supply_date w of
             (Inl e, w1) \<Rightarrow> (Inl e, w1)
           | (Inr months, w1) \<Rightarrow>
               (case getitem product_data ''inspectionDates'' of
                  Inl e \<Rightarrow> (Inl e, w1)
                | Inr inspection_dates \<Rightarrow>
                    (case get_last_inspection_days inspection_dates w1 of
                       (Inl e, w2) \<Rightarrow> (Inl e, w2)
                     | (Inr days, w2) \<Rightarrow>
                         (case risk_assessment months days product_data of
                            Inl e \<Rightarrow> (Inl e, w2)
                          | Inr (score, factors) \<Rightarrow>
                              (let (cond, col) = determine_condition score
                               in (Inr \<lparr>condition = cond,
                                        risk_score = min score 100,
                                        color = col,
                                        risk_factors = factors,
                                        age_months = months,
                                        days_since_inspection = days\<rparr>, w2)))))))"

section \<open>Recommendations and the report\<close>

definition generate_recommendations :: "analysis \<Rightarrow> json \<Rightarrow> string list" where
  "generate_recommendations a product_data =
     (let recommendations = [];
          recommendations =
            (if condition a = ''CRITICAL''
             then recommendations
                    @ [icon_siren @ '' IMMEDIATE ACTION: Replace component immediately'']
                    @ [icon_wrench @ '' Schedule emergency maintenance'']
                    @ [icon_clipboard @ '' Conduct thorough safety inspection'']
             else if condition a = ''WARNING''
             then recommendations
                    @ [icon_warning @ '' Schedule replacement within 30 days'']
                    @ [icon_search @ '' Increase inspection frequency to weekly'']
                    @ [icon_chart @ '' Monitor closely for deterioration'']
             else recommendations
                    @ [icon_check @ '' Continue normal operation'']
                    @ [icon_calendar @ '' Maintain regular inspection schedule'']);
          recommendations =
            (if py_gt (days_since_inspection a) 90
             then recommendations
                    @ [icon_inspect @ '' Schedule inspection (last: ''
                         @ py_str (days_since_inspection a) @ '' days ago)'']
             else recommendations);
          recommendations =
            (if age_months a > 36
             then recommendations @ [icon_trend @ '' Consider proactive replacement planning'']
             else recommendations)
      in recommendations)"

text \<open>
  The result of \<^verbatim>\<open>analyze_product\<close>: the dictionary with the single key
  \<^verbatim>\<open>error\<close>, or the summary of product information, analysis and recommendations.
\<close>

record product_info =
  Product_ID :: json
  Vendor :: json
  Batch_No :: json
  Supply_Date :: json
  Warranty :: json
  Status :: json

record ai_analysis =
  Condition :: string
  Risk_Score :: string
  Age :: string
  Last_Inspection :: string
  Risk_Factors :: "string list"

datatype report = Error string | Summary product_info ai_analysis "string list"

definition product_info_of :: "json \<Rightarrow> py_error + product_info" where
  "product_info_of product_data =
     (case getitem product_data ''productId'' of Inl e \<Rightarrow> Inl e | Inr pid \<Rightarrow>
     (case getitem product_data ''vendor'' of Inl e \<Rightarrow> Inl e | Inr ven \<Rightarrow>
     (case getitem product_data ''batchNo'' of Inl e \<Rightarrow> Inl e | Inr bat \<Rightarrow>
     (case getitem product_data ''dateOfSupply'' of Inl e \<Rightarrow> Inl e | Inr dat \<Rightarrow>
     (case getitem product_data ''warrantyPeriod'' of Inl e \<Rightarrow> Inl e | Inr war \<Rightarrow>
     (case getitem product_data ''status'' of Inl e \<Rightarrow> Inl e | Inr sta \<Rightarrow>
        Inr \<lparr>Product_ID = pid, Vendor = ven, Batch_No = bat, Supply_Date = dat,
             Warranty = war, Status = sta\<rparr>))))))"

definition ai_analysis_of :: "analysis \<Rightarrow> ai_analysis" where
  "ai_analysis_of a =
     \<lparr>Condition = color a @ '' '' @ condition a,
      Risk_Score = str_int (risk_score a) @ ''/100'',
      Age = str_int (age_months a) @ '' months'',
      Last_Inspection = py_str (days_since_inspection a) @ '' days ago'',
      Risk_Factors = risk_factors a\<rparr>"

definition analyze_product :: "RailwayAnalyzer \<Rightarrow> string \<Rightarrow> world \<Rightarrow> (py_error + report) \<times> world" where
  "analyze_product self product_id w =
     (let (product_data, w1) = fetch_product_data self product_id w
      in if \<not> truthy product_data
         then (Inr (Error ''Product not found or API error''), w1)
         else
           (case analyze_condition product_data w1 of
              (Inl e, w2) \<Rightarrow> (Inl e, w2)
            | (Inr a, w2) \<Rightarrow>
                (let recommendations = generate_recommendations a product_data
                 in (case product_info_of product_data of
                       Inl e \<Rightarrow> (Inl e, w2)
                     | Inr info \<Rightarrow>
                         (Inr (Summary info (ai_analysis_of a) recommendations), w2)))))"

section \<open>Example inputs\<close>

text \<open>
  Noon of 3 November 2026; a world whose clock stands at a given time, with nothing
  printed yet and an unreachable backend; and a complete product record with a given
  supply date, inspection dates and status.
\<close>

definition example_now :: datetime where
  "example_now = \<lparr>year = 2026, month = 11, day = 3, hour = 12, minute = 0, second = 0,
                   microsecond = 0\<rparr>"

definition world_at :: "datetime \<Rightarrow> world" where
  "world_at t = \<lparr>clock = (\<lambda>n. t), reads = 0, stdout = [],
                 http = (\<lambda>url. RequestException ''connection refused'')\<rparr>"

definition example_record :: "json \<Rightarrow> json \<Rightarrow> json \<Rightarrow> json" where
  "example_record supplied inspected st =
     JObj [(''productId'', JStr ''1234''), (''vendor'', JStr ''Acme Rail''),
           (''batchNo'', JStr ''B-17''), (''dateOfSupply'', supplied),
           (''warrantyPeriod'', JStr ''5 years''), (''status'', st),
           (''inspectionDates'', inspected)]"

text \<open>The factor texts of the three buckets, most severe first.\<close>

definition age_factors :: "string list" where
  "age_factors = [''Component exceeding recommended service life'',
                  ''Component approaching end of service life'',
                  ''Component in mid-service period'']"

definition inspection_factors :: "string list" where
  "inspection_factors = [''Overdue for inspection (>6 months)'', ''Due for inspection soon'']"

definition status_factors :: "string list" where
  "status_factors = [''Component status indicates issues'']"

section \<open>What a successful analysis is made of\<close>

lemma risk_assessment_Inr:
  assumes "risk_assessment m d pd = Inr (score, factors)"
  shows "\<exists>s. getitem pd ''status'' = Inr (JStr s)
     \<and> score = (if m > 48 then 40 else if m > 36 then 25 else if m > 24 then 10 else 0)
             + (if py_gt d 180 then 35 else if py_gt d 90 then 20 else 0)
             + (if map lower_char s \<in> set [''faulty'', ''damaged'', ''worn''] then 50 else 0)
     \<and> factors = (if m > 48 then [''Component exceeding recommended service life'']
                  else if m > 36 then [''Component approaching end of service life'']
                  else if m > 24 then [''Component in mid-service period''] else [])
             @ (if py_gt d 180 then [''Overdue for inspection (>6 months)'']
                else if py_gt d 90 then [''Due for inspection soon''] else [])
             @ (if map lower_char s \<in> set [''faulty'', ''damaged'', ''worn'']
                then [''Component status indicates issues''] else [])"
proof -
  from assms obtain st where st: "getitem pd ''status'' = Inr st"
    by (cases "getitem pd ''status''") (simp_all add: risk_assessment_def Let_def)
  from assms st obtain s where s: "st = JStr s"
    by (cases st) (simp_all add: risk_assessment_def Let_def lower_def)
  from assms st s show ?thesis
    by (simp add: risk_assessment_def Let_def lower_def split: if_splits)
qed

lemma risk_assessment_bounds:
  assumes "risk_assessment m d pd = Inr (score, factors)"
  shows "0 \<le> score \<and> score \<le> 125"
  using risk_assessment_Inr [OF assms] by (auto split: if_splits)

lemma analyze_condition_Inr:
  assumes "fst (analyze_condition pd w) = Inr a"
  shows "\<exists>sd ids w1 score factors.
      getitem pd ''dateOfSupply'' = Inr sd
    \<and> calculate_age_months sd w = (Inr (age_months a), w1)
    \<and> getitem pd ''inspectionDates'' = Inr ids
    \<and> fst (get_last_inspection_days ids w1) = Inr (days_since_inspection a)
    \<and> risk_assessment (age_months a) (days_since_inspection a) pd = Inr (score, factors)
    \<and> condition a = fst (determine_condition score)
    \<and> color a = snd (determine_condition score)
    \<and> risk_score a = min score 100
    \<and> risk_factors a = factors"
  using assms
  by (auto simp: analyze_condition_def Let_def split: sum.splits prod.splits)

lemma determine_condition_ranges:
  "(fst (determine_condition s) = ''CRITICAL'' \<longleftrightarrow> 70 \<le> s)
   \<and> (fst (determine_condition s) = ''WARNING'' \<longleftrightarrow> 40 \<le> s \<and> s < 70)
   \<and> (fst (determine_condition s) = ''GOOD'' \<longleftrightarrow> s < 40)"
  by (simp add: determine_condition_def)

lemma determine_condition_clamped:
  "determine_condition (min s 100) = determine_condition s"
  by (simp add: determine_condition_def min_def)

section \<open>Elapsed days\<close>

lemma days_before_year_four:
  "1460 \<le> days_before_year y - days_before_year (y - 4)
   \<and> days_before_year y - days_before_year (y - 4) \<le> 1462"
proof -
  have d4: "(y - 1) div 4 - (y - 5) div 4 = 1"
    by linarith
  have d100: "0 \<le> (y - 1) div 100 - (y - 5) div 100 \<and> (y - 1) div 100 - (y - 5) div 100 \<le> 1"
    by linarith
  have d400: "0 \<le> (y - 1) div 400 - (y - 5) div 400 \<and> (y - 1) div 400 - (y - 5) div 400 \<le> 1"
    by linarith
  have "days_before_year y - days_before_year (y - 4)
      = 1460 + ((y - 1) div 4 - (y - 5) div 4) - ((y - 1) div 100 - (y - 5) div 100)
        + ((y - 1) div 400 - (y - 5) div 400)"
    unfolding days_before_year_def by simp
  with d4 d100 d400 show ?thesis by linarith
qed

lemma days_before_month_four:
  "- 1 \<le> days_before_month y m - days_before_month (y - 4) m
   \<and> days_before_month y m - days_before_month (y - 4) m \<le> 1"
  unfolding days_before_month_def by simp

lemma four_years_in_months:
  "(ymd2ord y m d - ymd2ord (y - 4) m d) div 30 = 48"
proof -
  have "ymd2ord y m d - ymd2ord (y - 4) m d
      = (days_before_year y - days_before_year (y - 4))
        + (days_before_month y m - days_before_month (y - 4) m)"
    unfolding ymd2ord_def by simp
  with days_before_year_four [of y] days_before_month_four [of y m]
  have "1440 \<le> ymd2ord y m d - ymd2ord (y - 4) m d"
    and "ymd2ord y m d - ymd2ord (y - 4) m d < 1470"
    by linarith+
  then show ?thesis by linarith
qed

lemma sub_days_midnight:
  assumes "valid_datetime a" "hour b = 0" "minute b = 0" "second b = 0" "microsecond b = 0"
  shows "sub_days a b = toordinal a - toordinal b"
proof -
  define r where "r = (second a + minute a * 60 + hour a * 3600) * 1000000 + microsecond a"
  from assms(1) have "0 \<le> r" "r < 86400000000"
    unfolding r_def valid_datetime_def by auto
  then have "((toordinal a - toordinal b) * 86400000000 + r) div 86400000000
             = toordinal a - toordinal b"
    by simp
  then show ?thesis
    using assms(2-) unfolding sub_days_def Let_def r_def by (simp add: algebra_simps)
qed

lemma strptime_midnight:
  assumes "strptime v = Inr d"
  shows "hour d = 0 \<and> minute d = 0 \<and> second d = 0 \<and> microsecond d = 0"
  using assms
  by (auto simp: strptime_def split: json.splits list.splits prod.splits if_splits)

section \<open>Scenario: supplied four years ago, never inspected, status good\<close>

text \<open>
  C1, as the code has it. Four years are 1460 or 1461 days, 48 whole periods of 30 days,
  and the top age bucket asks for more than 48. So a record whose supply date is the
  current date four years earlier, with no inspection dates and status \<open>good\<close>, gets
  25 from the age bucket (approaching end of service life), 35 from the inspection
  bucket and nothing from the status: the risk score is 60, the condition is WARNING, and
  the two factors stand in that order.
\<close>

theorem four_years_old_scores_warning:
  assumes "valid_datetime (clock w (reads w))"
    and "getitem pd ''dateOfSupply'' = Inr sd"
    and "strptime sd = Inr supply"
    and "year supply = year (clock w (reads w)) - 4"
    and "month supply = month (clock w (reads w))"
    and "day supply = day (clock w (reads w))"
    and "getitem pd ''inspectionDates'' = Inr (JArr [])"
    and "getitem pd ''status'' = Inr (JStr ''good'')"
  shows "fst (analyze_condition pd w) =
           Inr \<lparr>condition = ''WARNING'', risk_score = 60, color = icon_yellow,
                risk_factors = [''Component approaching end of service life'',
                                ''Overdue for inspection (>6 months)''],
                age_months = 48, days_since_inspection = PyInf\<rparr>"
proof -
  have "sub_days (clock w (reads w)) supply = toordinal (clock w (reads w)) - toordinal supply"
    using sub_days_midnight [OF assms(1)] strptime_midnight [OF assms(3)] by simp
  also have "\<dots> = ymd2ord (year (clock w (reads w))) (month (clock w (reads w)))
                      (day (clock w (reads w)))
                  - ymd2ord (year (clock w (reads w)) - 4) (month (clock w (reads w)))
                      (day (clock w (reads w)))"
    using assms(4-6) by (simp add: toordinal_def)
  finally have "sub_days (clock w (reads w)) supply div 30 = 48"
    by (simp add: four_years_in_months)
  then have age: "fst (calculate_age_months sd w) = Inr 48"
    using assms(3) by (simp add: calculate_age_months_def datetime_now_def)
  have insp: "get_last_inspection_days (JArr []) w' = (Inr PyInf, w')" for w'
    by (simp add: get_last_inspection_days_def)
  have risk: "risk_assessment 48 PyInf pd =
                Inr (60, [''Component approaching end of service life'',
                          ''Overdue for inspection (>6 months)''])"
    using assms(8) by (simp add: risk_assessment_def Let_def lower_def lower_char_def)
  show ?thesis
    using age assms(2,7) insp risk
    by (auto simp: analyze_condition_def determine_condition_def split: prod.splits sum.splits)
qed

theorem four_years_old_scores_warning_witness:
  "valid_datetime (clock (world_at example_now) (reads (world_at example_now)))
   \<and> strptime (JStr ''2022-11-03'')
       = Inr \<lparr>year = 2022, month = 11, day = 3, hour = 0, minute = 0, second = 0,
              microsecond = 0\<rparr>
   \<and> fst (analyze_condition (example_record (JStr ''2022-11-03'') (JArr []) (JStr ''good''))
            (world_at example_now)) =
           Inr \<lparr>condition = ''WARNING'', risk_score = 60, color = icon_yellow,
                risk_factors = [''Component approaching end of service life'',
                                ''Overdue for inspection (>6 months)''],
                age_months = 48, days_since_inspection = PyInf\<rparr>"
proof -
  have v: "valid_datetime (clock (world_at example_now) (reads (world_at example_now)))"
    by (simp add: world_at_def example_now_def valid_datetime_def days_in_month_def)
  have p: "strptime (JStr ''2022-11-03'')
       = Inr \<lparr>year = 2022, month = 11, day = 3, hour = 0, minute = 0, second = 0,
              microsecond = 0\<rparr>"
    by (simp add: strptime_def match_format_def match_m_def match_d_def is_digit_def
        digit_val_def days_in_month_def)
  show ?thesis
    using v p
      four_years_old_scores_warning [OF v _ p, of
        "example_record (JStr ''2022-11-03'') (JArr []) (JStr ''good'')"]
    by (simp add: example_record_def world_at_def example_now_def)
qed

text \<open>
  The claim as written (40 from the age bucket, score 75, CRITICAL) fails on
  3 November 2026 at noon for a component supplied on 3 November 2022.
\<close>

theorem four_years_old_not_critical:
  "fst (analyze_condition (example_record (JStr ''2022-11-03'') (JArr []) (JStr ''good''))
         (world_at example_now)) =
     Inr \<lparr>condition = ''WARNING'', risk_score = 60, color = icon_yellow,
          risk_factors = [''Component approaching end of service life'',
                          ''Overdue for inspection (>6 months)''],
          age_months = 48, days_since_inspection = PyInf\<rparr>"
  by code_simp

section \<open>Score, condition and clamping\<close>

text \<open>
  C2. Whenever the scorer returns an analysis, its condition is CRITICAL exactly when
  the reported risk score is at least 70, WARNING exactly when it is at least 40 and
  below 70, and GOOD exactly when it is below 40; one of the three always holds. The
  classification itself puts 40 and 69 in WARNING and 70 in CRITICAL.
\<close>

theorem condition_iff_score_range:
  assumes "fst (analyze_condition pd w) = Inr a"
  shows "(condition a = ''CRITICAL'' \<longleftrightarrow> 70 \<le> risk_score a)
       \<and> (condition a = ''WARNING'' \<longleftrightarrow> 40 \<le> risk_score a \<and> risk_score a < 70)
       \<and> (condition a = ''GOOD'' \<longleftrightarrow> risk_score a < 40)
       \<and> (condition a = ''CRITICAL'' \<or> condition a = ''WARNING'' \<or> condition a = ''GOOD'')
       \<and> fst (determine_condition 40) = ''WARNING''
       \<and> fst (determine_condition 69) = ''WARNING''
       \<and> fst (determine_condition 70) = ''CRITICAL''"
proof -
  from analyze_condition_Inr [OF assms] obtain score where
    c: "condition a = fst (determine_condition score)" and r: "risk_score a = min score 100"
    by blast
  have "condition a = fst (determine_condition (risk_score a))"
    using c r by (simp add: determine_condition_clamped)
  then show ?thesis
    using determine_condition_ranges [of "risk_score a"]
    by (auto simp: determine_condition_def)
qed

theorem condition_iff_score_range_witness:
  "fst (analyze_condition
          (example_record (JStr ''2026-01-01'') (JArr [JStr ''2026-07-26'']) (JStr ''Faulty''))
          (world_at example_now)) =
     Inr \<lparr>condition = ''CRITICAL'', risk_score = 70, color = icon_red,
          risk_factors = [''Due for inspection soon'', ''Component status indicates issues''],
          age_months = 10, days_since_inspection = PyInt 100\<rparr>
   \<and> fst (analyze_condition
          (example_record (JStr ''2020-01-01'') (JArr [JStr ''2026-11-01'']) (JStr ''good''))
          (world_at example_now)) =
     Inr \<lparr>condition = ''WARNING'', risk_score = 40, color = icon_yellow,
          risk_factors = [''Component exceeding recommended service life''],
          age_months = 83, days_since_inspection = PyInt 2\<rparr>
   \<and> fst (determine_condition 40) = ''WARNING''
   \<and> fst (determine_condition 69) = ''WARNING''
   \<and> fst (determine_condition 70) = ''CRITICAL''"
proof -
  have h70: "fst (analyze_condition
          (example_record (JStr ''2026-01-01'') (JArr [JStr ''2026-07-26'']) (JStr ''Faulty''))
          (world_at example_now)) =
     Inr \<lparr>condition = ''CRITICAL'', risk_score = 70, color = icon_red,
          risk_factors = [''Due for inspection soon'', ''Component status indicates issues''],
          age_months = 10, days_since_inspection = PyInt 100\<rparr>"
    by code_simp
  have h40: "fst (analyze_condition
          (example_record (JStr ''2020-01-01'') (JArr [JStr ''2026-11-01'']) (JStr ''good''))
          (world_at example_now)) =
     Inr \<lparr>condition = ''WARNING'', risk_score = 40, color = icon_yellow,
          risk_factors = [''Component exceeding recommended service life''],
          age_months = 83, days_since_inspection = PyInt 2\<rparr>"
    by code_simp
  show ?thesis
    using h70 h40 condition_iff_score_range [OF h70] condition_iff_score_range [OF h40]
    by simp
qed

text \<open>
  C3. The reported risk score lies between 0 and 100. It is the minimum of 100 and the
  sum the buckets accumulated; that sum lies between 0 and 125 and is itself never cut:
  the condition is chosen from it as it stands.
\<close>

theorem risk_score_clamped:
  assumes "fst (analyze_condition pd w) = Inr a"
  shows "0 \<le> risk_score a \<and> risk_score a \<le> 100
       \<and> (\<exists>score factors.
             risk_assessment (age_months a) (days_since_inspection a) pd = Inr (score, factors)
             \<and> 0 \<le> score \<and> score \<le> 125
             \<and> risk_score a = min score 100
             \<and> condition a = fst (determine_condition score))"
proof -
  from analyze_condition_Inr [OF assms] obtain score factors where
    ra: "risk_assessment (age_months a) (days_since_inspection a) pd = Inr (score, factors)"
    and c: "condition a = fst (determine_condition score)"
    and r: "risk_score a = min score 100"
    by blast
  from risk_assessment_bounds [OF ra] have b: "0 \<le> score" "score \<le> 125"
    by simp_all
  from b r have "0 \<le> risk_score a \<and> risk_score a \<le> 100"
    by simp
  with ra b c r show ?thesis
    by blast
qed

theorem risk_score_clamped_witness:
  "fst (analyze_condition (example_record (JStr ''2020-01-01'') (JArr []) (JStr ''worn''))
         (world_at example_now)) =
     Inr \<lparr>condition = ''CRITICAL'', risk_score = 100, color = icon_red,
          risk_factors = [''Component exceeding recommended service life'',
                          ''Overdue for inspection (>6 months)'',
                          ''Component status indicates issues''],
          age_months = 83, days_since_inspection = PyInf\<rparr>
   \<and> risk_assessment 83 PyInf (example_record (JStr ''2020-01-01'') (JArr []) (JStr ''worn''))
       = Inr (125, [''Component exceeding recommended service life'',
                    ''Overdue for inspection (>6 months)'',
                    ''Component status indicates issues''])"
proof -
  have h: "fst (analyze_condition (example_record (JStr ''2020-01-01'') (JArr []) (JStr ''worn''))
         (world_at example_now)) =
     Inr \<lparr>condition = ''CRITICAL'', risk_score = 100, color = icon_red,
          risk_factors = [''Component exceeding recommended service life'',
                          ''Overdue for inspection (>6 months)'',
                          ''Component status indicates issues''],
          age_months = 83, days_since_inspection = PyInf\<rparr>"
    by code_simp
  have r: "risk_assessment 83 PyInf (example_record (JStr ''2020-01-01'') (JArr []) (JStr ''worn''))
       = Inr (125, [''Component exceeding recommended service life'',
                    ''Overdue for inspection (>6 months)'',
                    ''Component status indicates issues''])"
    by code_simp
  show ?thesis
    using h r risk_score_clamped [OF h] by simp
qed

text \<open>
  C10. The condition is chosen from the sum before it is cut to 100: CRITICAL exactly
  when the sum is at least 70, WARNING exactly when it is at least 40 and below 70, GOOD
  exactly when it is below 40. Yet it is always the one the same thresholds give for the
  reported score: CRITICAL exactly when the reported score is at least 70, WARNING
  exactly when it is at least 40 and below 70, GOOD exactly when it is below 40. And
  when the sum is above 100 the reported score is exactly 100 and the condition is
  CRITICAL.
\<close>

theorem condition_agrees_with_reported_score:
  assumes "fst (analyze_condition pd w) = Inr a"
  shows "condition a = fst (determine_condition (risk_score a))
       \<and> color a = snd (determine_condition (risk_score a))
       \<and> (condition a = ''CRITICAL'' \<longleftrightarrow> 70 \<le> risk_score a)
       \<and> (condition a = ''WARNING'' \<longleftrightarrow> 40 \<le> risk_score a \<and> risk_score a < 70)
       \<and> (condition a = ''GOOD'' \<longleftrightarrow> risk_score a < 40)
       \<and> (\<exists>score factors.
             risk_assessment (age_months a) (days_since_inspection a) pd = Inr (score, factors)
             \<and> condition a = fst (determine_condition score)
             \<and> (condition a = ''CRITICAL'' \<longleftrightarrow> 70 \<le> score)
             \<and> (condition a = ''WARNING'' \<longleftrightarrow> 40 \<le> score \<and> score < 70)
             \<and> (condition a = ''GOOD'' \<longleftrightarrow> score < 40)
             \<and> risk_score a = min score 100
             \<and> (100 < score \<longrightarrow> risk_score a = 100 \<and> condition a = ''CRITICAL''))"
proof -
  from analyze_condition_Inr [OF assms] obtain score factors where
    ra: "risk_assessment (age_months a) (days_since_inspection a) pd = Inr (score, factors)"
    and c: "condition a = fst (determine_condition score)"
    and k: "color a = snd (determine_condition score)"
    and r: "risk_score a = min score 100"
    by blast
  have same: "determine_condition (risk_score a) = determine_condition score"
    using r by (simp add: determine_condition_clamped)
  have raw: "(condition a = ''CRITICAL'' \<longleftrightarrow> 70 \<le> score)
       \<and> (condition a = ''WARNING'' \<longleftrightarrow> 40 \<le> score \<and> score < 70)
       \<and> (condition a = ''GOOD'' \<longleftrightarrow> score < 40)"
    using determine_condition_ranges [of score] c by simp
  have reported: "(condition a = ''CRITICAL'' \<longleftrightarrow> 70 \<le> risk_score a)
       \<and> (condition a = ''WARNING'' \<longleftrightarrow> 40 \<le> risk_score a \<and> risk_score a < 70)
       \<and> (condition a = ''GOOD'' \<longleftrightarrow> risk_score a < 40)"
    using determine_condition_ranges [of "risk_score a"] c same by simp
  have over: "100 < score \<longrightarrow> risk_score a = 100 \<and> condition a = ''CRITICAL''"
    using raw r by simp
  have agree: "condition a = fst (determine_condition (risk_score a))
       \<and> color a = snd (determine_condition (risk_score a))"
    using c k same by simp
  from ra c r raw over have "\<exists>score factors.
             risk_assessment (age_months a) (days_since_inspection a) pd = Inr (score, factors)
             \<and> condition a = fst (determine_condition score)
             \<and> (condition a = ''CRITICAL'' \<longleftrightarrow> 70 \<le> score)
             \<and> (condition a = ''WARNING'' \<longleftrightarrow> 40 \<le> score \<and> score < 70)
             \<and> (condition a = ''GOOD'' \<longleftrightarrow> score < 40)
             \<and> risk_score a = min score 100
             \<and> (100 < score \<longrightarrow> risk_score a = 100 \<and> condition a = ''CRITICAL'')"
    by blast
  with agree reported show ?thesis
    by blast
qed

theorem condition_agrees_with_reported_score_witness:
  "fst (analyze_condition
          (example_record (JStr ''2022-10-25'') (JArr [JStr ''2026-07-26'']) (JStr ''DAMAGED''))
          (world_at example_now)) =
     Inr \<lparr>condition = ''CRITICAL'', risk_score = 100, color = icon_red,
          risk_factors = [''Component exceeding recommended service life'',
                          ''Due for inspection soon'',
                          ''Component status indicates issues''],
          age_months = 49, days_since_inspection = PyInt 100\<rparr>
   \<and> risk_assessment 49 (PyInt 100)
         (example_record (JStr ''2022-10-25'') (JArr [JStr ''2026-07-26'']) (JStr ''DAMAGED''))
       = Inr (110, [''Component exceeding recommended service life'',
                    ''Due for inspection soon'',
                    ''Component status indicates issues''])
   \<and> ''CRITICAL'' = fst (determine_condition 100)
   \<and> icon_red = snd (determine_condition 100)"
proof -
  have h: "fst (analyze_condition
          (example_record (JStr ''2022-10-25'') (JArr [JStr ''2026-07-26'']) (JStr ''DAMAGED''))
          (world_at example_now)) =
     Inr \<lparr>condition = ''CRITICAL'', risk_score = 100, color = icon_red,
          risk_factors = [''Component exceeding recommended service life'',
                          ''Due for inspection soon'',
                          ''Component status indicates issues''],
          age_months = 49, days_since_inspection = PyInt 100\<rparr>"
    by code_simp
  have r: "risk_assessment 49 (PyInt 100)
         (example_record (JStr ''2022-10-25'') (JArr [JStr ''2026-07-26'']) (JStr ''DAMAGED''))
       = Inr (110, [''Component exceeding recommended service life'',
                    ''Due for inspection soon'',
                    ''Component status indicates issues''])"
    by code_simp
  show ?thesis
    using h r condition_agrees_with_reported_score [OF h] by simp
qed

section \<open>Risk factors\<close>

text \<open>
  C6. The risk factors of an analysis are an age part, then an inspection part, then a
  status part. Each part is exactly what its bucket triggers: the age part is the factor
  of the most severe age bucket the age satisfies (so for 25, 37 and 49 months exactly
  the mid-service, the approaching and the exceeding factor) and empty up to 24 months;
  the inspection part is the overdue factor above 180 days, the due-soon factor above 90
  days and empty otherwise; the status part is the status factor when the status in
  small letters is one of the three words and empty otherwise. So each part has at most
  one factor, of its own bucket, and no other age factor stands anywhere in the list.
\<close>

theorem risk_factors_in_evaluation_order:
  assumes "fst (analyze_condition pd w) = Inr a"
  shows "\<exists>af nf sf s.
           risk_factors a = af @ nf @ sf
         \<and> af = (if 48 < age_months a then [''Component exceeding recommended service life'']
                 else if 36 < age_months a then [''Component approaching end of service life'']
                 else if 24 < age_months a then [''Component in mid-service period'']
                 else [])
         \<and> nf = (if py_gt (days_since_inspection a) 180
                 then [''Overdue for inspection (>6 months)'']
                 else if py_gt (days_since_inspection a) 90 then [''Due for inspection soon'']
                 else [])
         \<and> getitem pd ''status'' = Inr (JStr s)
         \<and> sf = (if map lower_char s \<in> set [''faulty'', ''damaged'', ''worn'']
                 then [''Component status indicates issues''] else [])
         \<and> set af \<subseteq> set age_factors \<and> length af \<le> 1
         \<and> set nf \<subseteq> set inspection_factors \<and> length nf \<le> 1
         \<and> set sf \<subseteq> set status_factors \<and> length sf \<le> 1
         \<and> filter (\<lambda>f. f \<in> set age_factors) (risk_factors a) = af"
proof -
  from analyze_condition_Inr [OF assms] obtain score where
    ra: "risk_assessment (age_months a) (days_since_inspection a) pd
           = Inr (score, risk_factors a)"
    by blast
  from risk_assessment_Inr [OF ra] obtain s where
    st: "getitem pd ''status'' = Inr (JStr s)" and
    f: "risk_factors a =
          (if 48 < age_months a then [''Component exceeding recommended service life'']
           else if 36 < age_months a then [''Component approaching end of service life'']
           else if 24 < age_months a then [''Component in mid-service period''] else [])
          @ (if py_gt (days_since_inspection a) 180 then [''Overdue for inspection (>6 months)'']
             else if py_gt (days_since_inspection a) 90 then [''Due for inspection soon'']
             else [])
          @ (if map lower_char s \<in> set [''faulty'', ''damaged'', ''worn'']
             then [''Component status indicates issues''] else [])"
    by blast
  define af where "af =
          (if 48 < age_months a then [''Component exceeding recommended service life'']
           else if 36 < age_months a then [''Component approaching end of service life'']
           else if 24 < age_months a then [''Component in mid-service period''] else [])"
  define nf where "nf =
          (if py_gt (days_since_inspection a) 180 then [''Overdue for inspection (>6 months)'']
           else if py_gt (days_since_inspection a) 90 then [''Due for inspection soon'']
           else [])"
  define sf where "sf =
          (if map lower_char s \<in> set [''faulty'', ''damaged'', ''worn'']
           then [''Component status indicates issues''] else [])"
  have split: "risk_factors a = af @ nf @ sf"
    using f by (simp add: af_def nf_def sf_def)
  have a1: "set af \<subseteq> set age_factors \<and> length af \<le> 1"
    by (simp add: af_def age_factors_def)
  have n1: "set nf \<subseteq> set inspection_factors \<and> length nf \<le> 1"
    by (simp add: nf_def inspection_factors_def)
  have s1: "set sf \<subseteq> set status_factors \<and> length sf \<le> 1"
    by (simp add: sf_def status_factors_def)
  have fa: "filter (\<lambda>f. f \<in> set age_factors) af = af"
    by (simp add: af_def age_factors_def)
  have fn: "filter (\<lambda>f. f \<in> set age_factors) nf = []"
    by (simp add: nf_def age_factors_def)
  have fs: "filter (\<lambda>f. f \<in> set age_factors) sf = []"
    by (simp add: sf_def age_factors_def)
  have "filter (\<lambda>f. f \<in> set age_factors) (risk_factors a) = af"
    using split fa fn fs by simp
  with split a1 n1 s1 st show ?thesis
    unfolding af_def nf_def sf_def by blast
qed

theorem risk_factors_in_evaluation_order_witness:
  "fst (analyze_condition
          (example_record (JStr ''2022-10-25'') (JArr [JStr ''2026-07-26'']) (JStr ''DAMAGED''))
          (world_at example_now)) =
     Inr \<lparr>condition = ''CRITICAL'', risk_score = 100, color = icon_red,
          risk_factors = [''Component exceeding recommended service life'',
                          ''Due for inspection soon'',
                          ''Component status indicates issues''],
          age_months = 49, days_since_inspection = PyInt 100\<rparr>
   \<and> filter (\<lambda>f. f \<in> set age_factors)
        [''Component exceeding recommended service life'', ''Due for inspection soon'',
         ''Component status indicates issues'']
       = [''Component exceeding recommended service life'']"
proof -
  have h: "fst (analyze_condition
          (example_record (JStr ''2022-10-25'') (JArr [JStr ''2026-07-26'']) (JStr ''DAMAGED''))
          (world_at example_now)) =
     Inr \<lparr>condition = ''CRITICAL'', risk_score = 100, color = icon_red,
          risk_factors = [''Component exceeding recommended service life'',
                          ''Due for inspection soon'',
                          ''Component status indicates issues''],
          age_months = 49, days_since_inspection = PyInt 100\<rparr>"
    by code_simp
  show ?thesis
    using h risk_factors_in_evaluation_order [OF h] by (simp add: age_factors_def)
qed

section \<open>Recommendations\<close>

lemma digits_100: "digits 100 = ''100''"
  by code_simp

text \<open>
  C7. For an analysis with condition CRITICAL, an age of 40 months and 100 days since
  the last inspection, the recommendations are exactly five: the three critical
  actions, the inspection line with the number 100 in it, and the replacement
  planning line, in that order.
\<close>

theorem critical_recommendations_are_additive:
  assumes "condition a = ''CRITICAL''"
    and "age_months a = 40"
    and "days_since_inspection a = PyInt 100"
  shows "generate_recommendations a pd =
           [icon_siren @ '' IMMEDIATE ACTION: Replace component immediately'',
            icon_wrench @ '' Schedule emergency maintenance'',
            icon_clipboard @ '' Conduct thorough safety inspection'',
            icon_inspect @ '' Schedule inspection (last: 100 days ago)'',
            icon_trend @ '' Consider proactive replacement planning'']
         \<and> length (generate_recommendations a pd) = 5"
  using assms
  by (simp add: generate_recommendations_def Let_def str_int_def digits_100)

theorem critical_recommendations_are_additive_witness:
  "condition \<lparr>condition = ''CRITICAL'', risk_score = 95, color = icon_red,
          risk_factors = [''Component approaching end of service life'',
                          ''Due for inspection soon'',
                          ''Component status indicates issues''],
          age_months = 40, days_since_inspection = PyInt 100\<rparr> = ''CRITICAL''
   \<and> generate_recommendations
        \<lparr>condition = ''CRITICAL'', risk_score = 95, color = icon_red,
          risk_factors = [''Component approaching end of service life'',
                          ''Due for inspection soon'',
                          ''Component status indicates issues''],
          age_months = 40, days_since_inspection = PyInt 100\<rparr>
        (example_record (JStr ''2023-07-22'') (JArr [JStr ''2026-07-26'']) (JStr ''faulty''))
       = [icon_siren @ '' IMMEDIATE ACTION: Replace component immediately'',
          icon_wrench @ '' Schedule emergency maintenance'',
          icon_clipboard @ '' Conduct thorough safety inspection'',
          icon_inspect @ '' Schedule inspection (last: 100 days ago)'',
          icon_trend @ '' Consider proactive replacement planning'']"
  using critical_recommendations_are_additive [of
      "\<lparr>condition = ''CRITICAL'', risk_score = 95, color = icon_red,
          risk_factors = [''Component approaching end of service life'',
                          ''Due for inspection soon'',
                          ''Component status indicates issues''],
          age_months = 40, days_since_inspection = PyInt 100\<rparr>"
      "example_record (JStr ''2023-07-22'') (JArr [JStr ''2026-07-26'']) (JStr ''faulty'')"]
  by simp

text \<open>Such an analysis is what the scorer returns for a record of that age and recency.\<close>

lemma critical_example_analysis:
  "fst (analyze_condition
          (example_record (JStr ''2023-07-22'') (JArr [JStr ''2026-07-26'']) (JStr ''faulty''))
          (world_at example_now)) =
     Inr \<lparr>condition = ''CRITICAL'', risk_score = 95, color = icon_red,
          risk_factors = [''Component approaching end of service life'',
                          ''Due for inspection soon'',
                          ''Component status indicates issues''],
          age_months = 40, days_since_inspection = PyInt 100\<rparr>"
  by code_simp

section \<open>Never inspected\<close>

text \<open>
  C5. For a record whose inspection dates are the empty list, the days since the last
  inspection are the infinite value, which is greater than every integer it is compared
  with. The analysis therefore carries the overdue factor and not the due-soon one, its
  score is 35 more (before the cut to 100) than the same record would get with an
  inspection today, and the recommendations contain the line that schedules an
  inspection.
\<close>

theorem never_inspected_is_most_overdue:
  assumes "getitem pd ''inspectionDates'' = Inr (JArr [])"
    and "fst (analyze_condition pd w) = Inr a"
  shows "days_since_inspection a = PyInf
       \<and> (\<forall>k. py_gt (days_since_inspection a) k)
       \<and> ''Overdue for inspection (>6 months)'' \<in> set (risk_factors a)
       \<and> ''Due for inspection soon'' \<notin> set (risk_factors a)
       \<and> (\<exists>base factors.
             risk_assessment (age_months a) (PyInt 0) pd = Inr (base, factors)
             \<and> risk_score a = min (base + 35) 100)
       \<and> icon_inspect @ '' Schedule inspection (last: inf days ago)''
           \<in> set (generate_recommendations a pd)"
proof -
  from analyze_condition_Inr [OF assms(2)] obtain ids w1 score where
    i: "getitem pd ''inspectionDates'' = Inr ids"
    and g: "fst (get_last_inspection_days ids w1) = Inr (days_since_inspection a)"
    and ra: "risk_assessment (age_months a) (days_since_inspection a) pd
               = Inr (score, risk_factors a)"
    and r: "risk_score a = min score 100"
    by blast
  from i assms(1) have "ids = JArr []"
    by simp
  with g have d: "days_since_inspection a = PyInf"
    by (simp add: get_last_inspection_days_def)
  from risk_assessment_Inr [OF ra] obtain s where
    st: "getitem pd ''status'' = Inr (JStr s)"
    and sc: "score = (if 48 < age_months a then 40 else if 36 < age_months a then 25
                      else if 24 < age_months a then 10 else 0)
                   + 35
                   + (if map lower_char s \<in> set [''faulty'', ''damaged'', ''worn''] then 50 else 0)"
    and fa: "risk_factors a =
          (if 48 < age_months a then [''Component exceeding recommended service life'']
           else if 36 < age_months a then [''Component approaching end of service life'']
           else if 24 < age_months a then [''Component in mid-service period''] else [])
          @ [''Overdue for inspection (>6 months)'']
          @ (if map lower_char s \<in> set [''faulty'', ''damaged'', ''worn'']
             then [''Component status indicates issues''] else [])"
    unfolding d by auto
  have over: "''Overdue for inspection (>6 months)'' \<in> set (risk_factors a)"
    by (subst fa) simp
  have soon: "''Due for inspection soon'' \<notin> set (risk_factors a)"
    by (subst fa) simp
  have base: "risk_assessment (age_months a) (PyInt 0) pd
                = Inr (score - 35, filter (\<lambda>f. f \<noteq> ''Overdue for inspection (>6 months)'')
                                     (risk_factors a))"
    using st sc by (subst fa) (simp add: risk_assessment_def Let_def lower_def)
  have rec: "icon_inspect @ '' Schedule inspection (last: inf days ago)''
           \<in> set (generate_recommendations a pd)"
    using d by (simp add: generate_recommendations_def Let_def)
  from d over soon base r rec show ?thesis
    by auto
qed

theorem never_inspected_is_most_overdue_witness:
  "getitem (example_record (JStr ''2026-01-01'') (JArr []) (JStr ''good'')) ''inspectionDates''
     = Inr (JArr [])
   \<and> fst (analyze_condition (example_record (JStr ''2026-01-01'') (JArr []) (JStr ''good''))
            (world_at example_now)) =
       Inr \<lparr>condition = ''GOOD'', risk_score = 35, color = icon_green,
            risk_factors = [''Overdue for inspection (>6 months)''],
            age_months = 10, days_since_inspection = PyInf\<rparr>
   \<and> icon_inspect @ '' Schedule inspection (last: inf days ago)''
       \<in> set (generate_recommendations
                \<lparr>condition = ''GOOD'', risk_score = 35, color = icon_green,
                  risk_factors = [''Overdue for inspection (>6 months)''],
                  age_months = 10, days_since_inspection = PyInf\<rparr>
                (example_record (JStr ''2026-01-01'') (JArr []) (JStr ''good'')))"
proof -
  have g: "getitem (example_record (JStr ''2026-01-01'') (JArr []) (JStr ''good''))
             ''inspectionDates'' = Inr (JArr [])"
    by (simp add: example_record_def)
  have h: "fst (analyze_condition (example_record (JStr ''2026-01-01'') (JArr []) (JStr ''good''))
            (world_at example_now)) =
       Inr \<lparr>condition = ''GOOD'', risk_score = 35, color = icon_green,
            risk_factors = [''Overdue for inspection (>6 months)''],
            age_months = 10, days_since_inspection = PyInf\<rparr>"
    by code_simp
  show ?thesis
    using g h never_inspected_is_most_overdue [OF g h] by simp
qed

section \<open>The clock, the output and the backend\<close>

lemma calculate_age_months_reads:
  "calculate_age_months sd w =
     (case strptime sd of
        Inl e \<Rightarrow> (Inl e, w)
      | Inr supply \<Rightarrow>
          (Inr (sub_days (clock w (reads w)) supply div 30), w\<lparr>reads := Suc (reads w)\<rparr>))"
  by (simp add: calculate_age_months_def datetime_now_def split: sum.splits)

lemma get_last_inspection_days_reads:
  "get_last_inspection_days ids w =
     (if \<not> truthy ids then (Inr PyInf, w)
      else
        (case iter ids of
           Inl e \<Rightarrow> (Inl e, w)
         | Inr items \<Rightarrow>
             (case parse_dates items of
                Inl e \<Rightarrow> (Inl e, w)
              | Inr [] \<Rightarrow> (Inl ValueError, w)
              | Inr (d # ds) \<Rightarrow>
                  (Inr (PyInt (sub_days (clock w (reads w)) (max_datetime d ds))),
                   w\<lparr>reads := Suc (reads w)\<rparr>))))"
  by (simp add: get_last_inspection_days_def datetime_now_def Let_def
      split: sum.splits list.splits)

text \<open>
  C9. The scorer reads the clock at most twice and touches nothing else: in two worlds
  whose next two clock readings agree, whatever else differs, the same record gets the
  same result (analysis or error); and the scorer prints nothing and leaves the clock
  and the backend as they were.
\<close>

theorem scorer_is_a_function_of_record_and_clock:
  assumes "clock w1 (reads w1) = clock w2 (reads w2)"
    and "clock w1 (Suc (reads w1)) = clock w2 (Suc (reads w2))"
  shows "fst (analyze_condition pd w1) = fst (analyze_condition pd w2)
       \<and> stdout (snd (analyze_condition pd w1)) = stdout w1
       \<and> http (snd (analyze_condition pd w1)) = http w1
       \<and> clock (snd (analyze_condition pd w1)) = clock w1"
  using assms
  by (auto simp: analyze_condition_def calculate_age_months_reads
      get_last_inspection_days_reads Let_def
      split: sum.splits list.splits prod.splits)

theorem scorer_is_a_function_of_record_and_clock_witness:
  "clock (world_at example_now) (reads (world_at example_now))
     = clock \<lparr>clock = (\<lambda>n. example_now), reads = 7, stdout = [''earlier output''],
              http = (\<lambda>url. Body JNull)\<rparr> 7
   \<and> clock (world_at example_now) (Suc (reads (world_at example_now)))
     = clock \<lparr>clock = (\<lambda>n. example_now), reads = 7, stdout = [''earlier output''],
              http = (\<lambda>url. Body JNull)\<rparr> (Suc 7)
   \<and> fst (analyze_condition
            (example_record (JStr ''2023-07-22'') (JArr [JStr ''2026-07-26'']) (JStr ''faulty''))
            (world_at example_now))
     = fst (analyze_condition
            (example_record (JStr ''2023-07-22'') (JArr [JStr ''2026-07-26'']) (JStr ''faulty''))
            \<lparr>clock = (\<lambda>n. example_now), reads = 7, stdout = [''earlier output''],
              http = (\<lambda>url. Body JNull)\<rparr>)
   \<and> stdout (snd (analyze_condition
            (example_record (JStr ''2023-07-22'') (JArr [JStr ''2026-07-26'']) (JStr ''faulty''))
            (world_at example_now))) = []"
  using scorer_is_a_function_of_record_and_clock [of "world_at example_now"
      "\<lparr>clock = (\<lambda>n. example_now), reads = 7, stdout = [''earlier output''],
        http = (\<lambda>url. Body JNull)\<rparr>"
      "example_record (JStr ''2023-07-22'') (JArr [JStr ''2026-07-26'']) (JStr ''faulty'')"]
  by (simp add: world_at_def)

section \<open>Fetch failure\<close>

lemma fetch_product_data_failure:
  assumes "http w (api_base_url self @ ''/api/products/'' @ product_id) = RequestException e"
  shows "fetch_product_data self product_id w =
           (JNull, w\<lparr>stdout := stdout w
              @ [''Error fetching data for Product ID '' @ product_id @ '': '' @ e]\<rparr>)"
  using assms by (simp add: fetch_product_data_def)

lemma fetch_product_data_reads:
  "reads (snd (fetch_product_data self product_id w)) = reads w"
  by (simp add: fetch_product_data_def split: response.splits)

text \<open>
  C8. When the fetch gives no record (\<^verbatim>\<open>None\<close> after a failed request, or any
  other empty value), the workflow returns exactly the error result and stops there:
  the world is the one the fetch left, the clock has not been read, and the result is
  no summary.
\<close>

theorem fetch_failure_gives_error_result:
  assumes "\<not> truthy (fst (fetch_product_data self product_id w))"
  shows "analyze_product self product_id w =
           (Inr (Error ''Product not found or API error''),
            snd (fetch_product_data self product_id w))
       \<and> reads (snd (analyze_product self product_id w)) = reads w
       \<and> (\<forall>info ai recs. fst (analyze_product self product_id w) \<noteq> Inr (Summary info ai recs))"
proof -
  have r: "analyze_product self product_id w =
           (Inr (Error ''Product not found or API error''),
            snd (fetch_product_data self product_id w))"
    using assms by (cases "fetch_product_data self product_id w") (simp add: analyze_product_def)
  then show ?thesis
    by (simp add: fetch_product_data_reads)
qed

theorem fetch_failure_gives_error_result_witness:
  "\<not> truthy (fst (fetch_product_data (init ''http://localhost:3000/'') ''1234''
                    (world_at example_now)))
   \<and> analyze_product (init ''http://localhost:3000/'') ''1234'' (world_at example_now) =
       (Inr (Error ''Product not found or API error''),
        (world_at example_now)
          \<lparr>stdout := [''Error fetching data for Product ID 1234: connection refused'']\<rparr>)"
proof -
  have f: "fetch_product_data (init ''http://localhost:3000/'') ''1234'' (world_at example_now)
        = (JNull, (world_at example_now)
             \<lparr>stdout := [''Error fetching data for Product ID 1234: connection refused'']\<rparr>)"
    by (simp add: fetch_product_data_def world_at_def)
  then have n: "\<not> truthy (fst (fetch_product_data (init ''http://localhost:3000/'') ''1234''
                    (world_at example_now)))"
    by simp
  show ?thesis
    using n f fetch_failure_gives_error_result [OF n] by simp
qed

section \<open>A missing or malformed status\<close>

lemma getitem_not_validation: "getitem pd k \<noteq> Inl ValidationError"
  by (cases pd) (simp_all split: option.splits)

lemma strptime_not_validation: "strptime v \<noteq> Inl ValidationError"
  by (simp add: strptime_def split: json.splits list.splits prod.splits)

lemma parse_dates_not_validation: "parse_dates xs \<noteq> Inl ValidationError"
  by (induction xs) (auto simp: strptime_not_validation split: sum.splits)

lemma iter_not_validation: "iter v \<noteq> Inl ValidationError"
  by (cases v) simp_all

lemma lower_not_validation: "lower v \<noteq> Inl ValidationError"
  by (simp add: lower_def split: json.splits)

lemma risk_assessment_not_validation: "risk_assessment m d pd \<noteq> Inl ValidationError"
  using getitem_not_validation [of pd "''status''"]
  by (auto simp: risk_assessment_def Let_def lower_not_validation split: sum.splits)

lemma analyze_condition_not_validation: "fst (analyze_condition pd w) \<noteq> Inl ValidationError"
  using getitem_not_validation [of pd "''dateOfSupply''"]
    getitem_not_validation [of pd "''inspectionDates''"]
  by (auto simp: analyze_condition_def calculate_age_months_reads
      get_last_inspection_days_reads Let_def strptime_not_validation
      parse_dates_not_validation iter_not_validation risk_assessment_not_validation
      split: sum.splits list.splits prod.splits)

lemma risk_assessment_bad_status:
  assumes "getitem pd ''status'' = Inl KeyError
           \<or> (\<exists>v. getitem pd ''status'' = Inr v \<and> (\<forall>s. v \<noteq> JStr s))"
  shows "risk_assessment m d pd
           = Inl (if getitem pd ''status'' = Inl KeyError then KeyError else AttributeError)"
  using assms
  by (auto simp: risk_assessment_def Let_def lower_def split: json.splits)

text \<open>
  C4, as the code has it. When the status of the record is missing, or is not a string,
  the scorer raises and returns no analysis; it does not skip the status bucket. What it
  raises is never a \<open>ValidationError\<close>: the status bucket raises \<^verbatim>\<open>KeyError\<close> for a
  missing status and \<^verbatim>\<open>AttributeError\<close> for one that is not a string, and this is
  the error of the scorer whenever the supply date and the inspection dates were read
  without error before.
\<close>

theorem bad_status_raises:
  assumes "getitem pd ''status'' = Inl KeyError
           \<or> (\<exists>v. getitem pd ''status'' = Inr v \<and> (\<forall>s. v \<noteq> JStr s))"
  shows "(\<exists>e. fst (analyze_condition pd w) = Inl e \<and> e \<noteq> ValidationError)
       \<and> (\<forall>m d. risk_assessment m d pd
              = Inl (if getitem pd ''status'' = Inl KeyError then KeyError else AttributeError))
       \<and> (\<forall>sd m w1 ids d.
              getitem pd ''dateOfSupply'' = Inr sd
              \<and> calculate_age_months sd w = (Inr m, w1)
              \<and> getitem pd ''inspectionDates'' = Inr ids
              \<and> fst (get_last_inspection_days ids w1) = Inr d
            \<longrightarrow> fst (analyze_condition pd w)
                  = Inl (if getitem pd ''status'' = Inl KeyError then KeyError
                         else AttributeError))"
proof -
  have ra: "risk_assessment m d pd
              = Inl (if getitem pd ''status'' = Inl KeyError then KeyError else AttributeError)"
    for m d
    using assms by (rule risk_assessment_bad_status)
  have no: "fst (analyze_condition pd w) \<noteq> Inr a" for a
  proof
    assume "fst (analyze_condition pd w) = Inr a"
    from analyze_condition_Inr [OF this] ra show False
      by auto
  qed
  have err: "\<exists>e. fst (analyze_condition pd w) = Inl e \<and> e \<noteq> ValidationError"
  proof (cases "fst (analyze_condition pd w)")
    case (Inl e)
    with analyze_condition_not_validation [of pd w] show ?thesis
      by auto
  next
    case (Inr a)
    with no [of a] show ?thesis
      by simp
  qed
  have last: "fst (analyze_condition pd w)
                = Inl (if getitem pd ''status'' = Inl KeyError then KeyError else AttributeError)"
    if "getitem pd ''dateOfSupply'' = Inr sd" "calculate_age_months sd w = (Inr m, w1)"
      "getitem pd ''inspectionDates'' = Inr ids" "fst (get_last_inspection_days ids w1) = Inr d"
    for sd m w1 ids d
    using that ra [of m d]
    by (auto simp: analyze_condition_def split: sum.splits prod.splits)
  from err ra last show ?thesis
    by blast
qed

theorem bad_status_raises_witness:
  "(getitem (example_record (JStr ''2026-01-01'') (JArr []) (JInt 3)) ''status'' = Inl KeyError
    \<or> (\<exists>v. getitem (example_record (JStr ''2026-01-01'') (JArr []) (JInt 3)) ''status'' = Inr v
           \<and> (\<forall>s. v \<noteq> JStr s)))
   \<and> risk_assessment 10 PyInf (example_record (JStr ''2026-01-01'') (JArr []) (JInt 3))
       = Inl AttributeError
   \<and> (\<exists>e. fst (analyze_condition (example_record (JStr ''2026-01-01'') (JArr []) (JInt 3))
                 (world_at example_now)) = Inl e \<and> e \<noteq> ValidationError)"
proof -
  have h: "getitem (example_record (JStr ''2026-01-01'') (JArr []) (JInt 3)) ''status''
             = Inl KeyError
    \<or> (\<exists>v. getitem (example_record (JStr ''2026-01-01'') (JArr []) (JInt 3)) ''status'' = Inr v
           \<and> (\<forall>s. v \<noteq> JStr s))"
    by (simp add: example_record_def)
  have k: "getitem (example_record (JStr ''2026-01-01'') (JArr []) (JInt 3)) ''status''
             \<noteq> Inl KeyError"
    by (simp add: example_record_def)
  show ?thesis
    using h k bad_status_raises [OF h, of "world_at example_now"] by simp
qed

text \<open>
  The claim as written asks for a \<open>ValidationError\<close>. A record without a status gives
  \<^verbatim>\<open>KeyError\<close>, and one whose status is the number 3 gives \<^verbatim>\<open>AttributeError\<close>.
\<close>

theorem bad_status_is_not_a_validation_error:
  "fst (analyze_condition
          (JObj [(''productId'', JStr ''1234''), (''dateOfSupply'', JStr ''2026-01-01''),
                 (''inspectionDates'', JArr [])])
          (world_at example_now)) = Inl KeyError
   \<and> fst (analyze_condition (example_record (JStr ''2026-01-01'') (JArr []) (JInt 3))
            (world_at example_now)) = Inl AttributeError
   \<and> KeyError \<noteq> ValidationError \<and> AttributeError \<noteq> ValidationError"
  by code_simp

end
